theory Spec2Isabelle
  imports Complex_Main
begin

section \<open>Values of a decoded record\<close>

text \<open>
  The converter works on what \<^verbatim>\<open>json.loads\<close> returns: \<^verbatim>\<open>None\<close>, booleans, unbounded
  integers, floats, strings, lists and dictionaries. A dictionary keeps its insertion
  order, which is the order \<^verbatim>\<open>items()\<close> enumerates, so it is an association list.

  A float is a finite value, one of the two infinities or a NaN (Python's decoder accepts
  the literals \<^verbatim>\<open>Infinity\<close>, \<^verbatim>\<open>-Infinity\<close> and \<^verbatim>\<open>NaN\<close>). A finite float is given by the
  rational number it denotes; the two zeros are one value, since no operation of the
  program tells them apart. The rounding of the float arithmetic is not fixed here: the
  functions that add or divide take it as the argument \<open>rnd\<close>, which sends the exact
  result to the float the machine returns.
\<close>

datatype pyfloat = Fin rat | PInf | NInf | NaN

datatype json =
    JNull
  | JBool bool
  | JInt int
  | JFloat pyfloat
  | JStr string
  | JList "json list"
  | JDict "(string \<times> json) list"

text \<open>The exceptions the modelled statements can raise.\<close>

datatype exn =
  TypeError | KeyError | IndexError | AttributeError | OverflowError | ZeroDivisionError

text \<open>
  An extractor returns the pair \<^verbatim>\<open>(status, value)\<close> or raises; \<^verbatim>\<open>(False, None)\<close> is
  \<open>(False, JNull)\<close>.
\<close>

type_synonym outcome = "exn + (bool \<times> json)"

section \<open>The generic search\<close>

text \<open>
  \<^verbatim>\<open>_search_and_get\<close> (lines 139-165). \<open>search_items\<close> is the loop over the items of a
  dictionary and \<open>search_elems\<close> the inner loop over the elements of a list value. A key
  is compared first; a dictionary value is searched, a list value has its dictionary
  elements searched in order; anything else is passed over. Keys and feature names are
  only ever compared for equality. The depth of a record is not bounded: the limit that
  Python puts on the depth of a recursion is not part of the model.
\<close>

function (sequential)
  search_items :: "(string \<times> json) list \<Rightarrow> string \<Rightarrow> bool \<times> json" and
  search_elems :: "json list \<Rightarrow> string \<Rightarrow> bool \<times> json"
where
  "search_items [] feature = (False, JNull)"
| "search_items ((key, JDict d) # rest) feature =
     (if key = feature then (True, JDict d)
      else (case search_items d feature of
              (True, temp_value) \<Rightarrow> (True, temp_value)
            | (False, _) \<Rightarrow> search_items rest feature))"
| "search_items ((key, JList xs) # rest) feature =
     (if key = feature then (True, JList xs)
      else (case search_elems xs feature of
              (True, temp_value) \<Rightarrow> (True, temp_value)
            | (False, _) \<Rightarrow> search_items rest feature))"
| "search_items ((key, v) # rest) feature =
     (if key = feature then (True, v) else search_items rest feature)"
| "search_elems [] feature = (False, JNull)"
| "search_elems (JDict d # items) feature =
     (case search_items d feature of
        (True, temp_value) \<Rightarrow> (True, temp_value)
      | (False, _) \<Rightarrow> search_elems items feature)"
| "search_elems (item # items) feature = search_elems items feature"
  by pat_completeness auto
termination
  by (relation "measure (\<lambda>a. case a of
        Inl (d, _) \<Rightarrow> size_list (size_prod (\<lambda>_. 0) size) d
      | Inr (xs, _) \<Rightarrow> size_list size xs)")
     auto

text \<open>
  The method iterates \<^verbatim>\<open>json_data.items()\<close>: called on anything but a dictionary it
  raises \<^verbatim>\<open>AttributeError\<close>. (The recursive calls are guarded by \<^verbatim>\<open>isinstance\<close>.)
\<close>

fun search_and_get :: "json \<Rightarrow> string \<Rightarrow> outcome" where
  "search_and_get (JDict d) feature = Inr (search_items d feature)"
| "search_and_get _ feature = Inl AttributeError"

section \<open>Built-in operations the extractors use\<close>

text \<open>
  \<^verbatim>\<open>len(x)\<close>: lists, dictionaries and strings have a length, anything else raises
  \<^verbatim>\<open>TypeError\<close>. (The program only tests the length of a string against zero.)
\<close>

fun py_len :: "json \<Rightarrow> exn + nat" where
  "py_len (JList xs) = Inr (length xs)"
| "py_len (JDict d) = Inr (length d)"
| "py_len (JStr s) = Inr (length s)"
| "py_len _ = Inl TypeError"

text \<open>
  \<^verbatim>\<open>x[i]\<close> for a literal index \<open>i \<ge> 0\<close>: a list or a string shorter than that raises
  \<^verbatim>\<open>IndexError\<close>; a decoded dictionary has string keys only, so an integer key raises
  \<^verbatim>\<open>KeyError\<close>; the other values are not subscriptable.
\<close>

fun py_getitem_int :: "json \<Rightarrow> nat \<Rightarrow> exn + json" where
  "py_getitem_int (JList xs) i = (if i < length xs then Inr (xs ! i) else Inl IndexError)"
| "py_getitem_int (JStr s) i = (if i < length s then Inr (JStr [s ! i]) else Inl IndexError)"
| "py_getitem_int (JDict d) i = Inl KeyError"
| "py_getitem_int _ i = Inl TypeError"

text \<open>
  \<^verbatim>\<open>x["key"]\<close>: a dictionary returns the value stored under the key or raises
  \<^verbatim>\<open>KeyError\<close>; every other value raises \<^verbatim>\<open>TypeError\<close>.
\<close>

fun py_getitem_str :: "json \<Rightarrow> string \<Rightarrow> exn + json" where
  "py_getitem_str (JDict d) k = (case map_of d k of Some v \<Rightarrow> Inr v | None \<Rightarrow> Inl KeyError)"
| "py_getitem_str _ k = Inl TypeError"

text \<open>\<^verbatim>\<open>x[i]["key"]\<close>, the expression of the data-directory extractors.\<close>

definition py_getitem2 :: "json \<Rightarrow> nat \<Rightarrow> string \<Rightarrow> exn + json" where
  "py_getitem2 x i k =
     (case py_getitem_int x i of Inl e \<Rightarrow> Inl e | Inr entry \<Rightarrow> py_getitem_str entry k)"

text \<open>
  \<^verbatim>\<open>for section in sections\<close>: a list yields its elements, a dictionary its keys and a
  string its characters (as strings of length one).
\<close>

fun py_iter :: "json \<Rightarrow> exn + json list" where
  "py_iter (JList xs) = Inr xs"
| "py_iter (JDict d) = Inr (map (\<lambda>(k, v). JStr k) d)"
| "py_iter (JStr s) = Inr (map (\<lambda>c. JStr [c]) s)"
| "py_iter _ = Inl TypeError"

subsection \<open>Numbers\<close>

text \<open>
  Python compares an integer and a float by their exact values, and a boolean is the
  integer 0 or 1. \<open>num_val\<close> gives the value a comparison looks at; a value that is not a
  number has none, and comparing it with a number raises \<^verbatim>\<open>TypeError\<close>. Every
  comparison with a NaN is false.
\<close>

fun num_val :: "json \<Rightarrow> pyfloat option" where
  "num_val (JInt i) = Some (Fin (of_int i))"
| "num_val (JBool b) = Some (Fin (if b then 1 else 0))"
| "num_val (JFloat f) = Some f"
| "num_val _ = None"

fun float_lt :: "pyfloat \<Rightarrow> pyfloat \<Rightarrow> bool" where
  "float_lt NaN _ = False"
| "float_lt _ NaN = False"
| "float_lt (Fin a) (Fin b) = (a < b)"
| "float_lt _ NInf = False"
| "float_lt NInf _ = True"
| "float_lt PInf _ = False"
| "float_lt _ PInf = True"

definition py_lt :: "json \<Rightarrow> json \<Rightarrow> exn + bool" where
  "py_lt x y =
     (case (num_val x, num_val y) of
        (Some a, Some b) \<Rightarrow> Inr (float_lt a b)
      | _ \<Rightarrow> Inl TypeError)"

text \<open>
  \<^verbatim>\<open>min(entropy, value)\<close> returns \<^verbatim>\<open>value\<close> when \<^verbatim>\<open>value < entropy\<close> and
  \<^verbatim>\<open>entropy\<close> otherwise; \<^verbatim>\<open>max(entropy, value)\<close> returns \<^verbatim>\<open>value\<close> when
  \<^verbatim>\<open>value > entropy\<close>. The object returned is one of the two arguments, unchanged.
\<close>

definition py_min :: "json \<Rightarrow> json \<Rightarrow> exn + json" where
  "py_min entropy v =
     (case py_lt v entropy of Inl e \<Rightarrow> Inl e | Inr b \<Rightarrow> Inr (if b then v else entropy))"

definition py_max :: "json \<Rightarrow> json \<Rightarrow> exn + json" where
  "py_max entropy v =
     (case py_lt entropy v of Inl e \<Rightarrow> Inl e | Inr b \<Rightarrow> Inr (if b then v else entropy))"

text \<open>
  Converting an integer to a float rounds it, and raises \<^verbatim>\<open>OverflowError\<close> when the
  integer is beyond the range of the floats.
\<close>

definition float_of_int :: "(rat \<Rightarrow> pyfloat) \<Rightarrow> int \<Rightarrow> exn + pyfloat" where
  "float_of_int rnd i = (case rnd (of_int i) of Fin r \<Rightarrow> Inr (Fin r) | _ \<Rightarrow> Inl OverflowError)"

fun float_add :: "(rat \<Rightarrow> pyfloat) \<Rightarrow> pyfloat \<Rightarrow> pyfloat \<Rightarrow> pyfloat" where
  "float_add rnd (Fin a) (Fin b) = rnd (a + b)"
| "float_add rnd NaN _ = NaN"
| "float_add rnd _ NaN = NaN"
| "float_add rnd PInf NInf = NaN"
| "float_add rnd NInf PInf = NaN"
| "float_add rnd PInf _ = PInf"
| "float_add rnd _ PInf = PInf"
| "float_add rnd NInf _ = NInf"
| "float_add rnd _ NInf = NInf"

text \<open>
  \<^verbatim>\<open>acc += value\<close> with a number \<^verbatim>\<open>acc\<close>: two integers (or booleans) add exactly to an
  integer; when one side is a float the other is converted first; a value that is not a
  number raises \<^verbatim>\<open>TypeError\<close>.
\<close>

fun int_val :: "json \<Rightarrow> int option" where
  "int_val (JInt i) = Some i"
| "int_val (JBool b) = Some (if b then 1 else 0)"
| "int_val _ = None"

definition py_add :: "(rat \<Rightarrow> pyfloat) \<Rightarrow> json \<Rightarrow> json \<Rightarrow> exn + json" where
  "py_add rnd acc v =
     (case (int_val acc, int_val v) of
        (Some a, Some b) \<Rightarrow> Inr (JInt (a + b))
      | (Some a, None) \<Rightarrow>
          (case v of
             JFloat g \<Rightarrow>
               (case float_of_int rnd a of Inl e \<Rightarrow> Inl e
                | Inr f \<Rightarrow> Inr (JFloat (float_add rnd f g)))
           | _ \<Rightarrow> Inl TypeError)
      | (None, Some b) \<Rightarrow>
          (case acc of
             JFloat f \<Rightarrow>
               (case float_of_int rnd b of Inl e \<Rightarrow> Inl e
                | Inr g \<Rightarrow> Inr (JFloat (float_add rnd f g)))
           | _ \<Rightarrow> Inl TypeError)
      | (None, None) \<Rightarrow>
          (case (acc, v) of
             (JFloat f, JFloat g) \<Rightarrow> Inr (JFloat (float_add rnd f g))
           | _ \<Rightarrow> Inl TypeError))"

text \<open>
  \<^verbatim>\<open>acc / len(sections)\<close>, where the divisor \<open>n\<close> is the length of a non-empty list. Two
  integers divide to the rounded quotient, \<^verbatim>\<open>OverflowError\<close> when it is beyond the
  floats; a float is divided by the converted length.
\<close>

fun float_div_pos :: "(rat \<Rightarrow> pyfloat) \<Rightarrow> pyfloat \<Rightarrow> rat \<Rightarrow> pyfloat" where
  "float_div_pos rnd (Fin a) b = rnd (a / b)"
| "float_div_pos rnd f b = f"

definition py_truediv_len :: "(rat \<Rightarrow> pyfloat) \<Rightarrow> json \<Rightarrow> nat \<Rightarrow> exn + json" where
  "py_truediv_len rnd acc n =
     (case acc of
        JInt a \<Rightarrow>
          (case rnd (of_int a / of_nat n) of
             Fin q \<Rightarrow> Inr (JFloat (Fin q))
           | _ \<Rightarrow> Inl OverflowError)
      | JFloat f \<Rightarrow>
          (case float_of_int rnd (int n) of
             Inl e \<Rightarrow> Inl e
           | Inr (Fin b) \<Rightarrow>
               if 0 < b then Inr (JFloat (float_div_pos rnd f b)) else Inl ZeroDivisionError
           | Inr _ \<Rightarrow> Inl OverflowError)
      | _ \<Rightarrow> Inl TypeError)"

section \<open>The data-directory extractors\<close>

text \<open>
  Lines 168-250. Each method looks \<^verbatim>\<open>"datadirectories"\<close> up with the generic search,
  answers \<^verbatim>\<open>(True, 0.0)\<close> when its length is zero and otherwise reads one field of
  the entry at a fixed index.

  The class body defines \<^verbatim>\<open>_get_debug_size\<close> twice. The first definition (lines
  168-178) reads \<^verbatim>\<open>datadirectories[6]["size"]\<close>; the second (lines 180-190) has the
  same name and reads \<^verbatim>\<open>datadirectories[6]["virtual_address"]\<close>. A later \<^verbatim>\<open>def\<close>
  rebinds the name, so the method that \<^verbatim>\<open>convert\<close> calls is the second one:
  \<open>get_debug_size\<close> below. The first is kept as \<open>get_debug_size_shadowed\<close>.
\<close>

definition get_debug_size_shadowed :: "json \<Rightarrow> outcome" where
  "get_debug_size_shadowed json_data =
     (case search_and_get json_data ''datadirectories'' of
        Inl e \<Rightarrow> Inl e
      | Inr (False, _) \<Rightarrow> Inr (False, JNull)
      | Inr (True, datadirectories) \<Rightarrow>
          (case py_len datadirectories of
             Inl e \<Rightarrow> Inl e
           | Inr n \<Rightarrow>
               if n = 0 then Inr (True, JFloat (Fin 0))
               else (case py_getitem2 datadirectories 6 ''size'' of
                       Inl e \<Rightarrow> Inl e
                     | Inr debug_size \<Rightarrow> Inr (True, debug_size))))"

definition get_debug_size :: "json \<Rightarrow> outcome" where
  "get_debug_size json_data =
     (case search_and_get json_data ''datadirectories'' of
        Inl e \<Rightarrow> Inl e
      | Inr (False, _) \<Rightarrow> Inr (False, JNull)
      | Inr (True, datadirectories) \<Rightarrow>
          (case py_len datadirectories of
             Inl e \<Rightarrow> Inl e
           | Inr n \<Rightarrow>
               if n = 0 then Inr (True, JFloat (Fin 0))
               else (case py_getitem2 datadirectories 6 ''virtual_address'' of
                       Inl e \<Rightarrow> Inl e
                     | Inr debug_rva \<Rightarrow> Inr (True, debug_rva))))"

definition get_debug_rva :: "json \<Rightarrow> outcome" where
  "get_debug_rva json_data =
     (case search_and_get json_data ''datadirectories'' of
        Inl e \<Rightarrow> Inl e
      | Inr (False, _) \<Rightarrow> Inr (False, JNull)
      | Inr (True, datadirectories) \<Rightarrow>
          (case py_len datadirectories of
             Inl e \<Rightarrow> Inl e
           | Inr n \<Rightarrow>
               if n = 0 then Inr (True, JFloat (Fin 0))
               else (case py_getitem2 datadirectories 6 ''virtual_address'' of
                       Inl e \<Rightarrow> Inl e
                     | Inr debug_rva \<Rightarrow> Inr (True, debug_rva))))"

definition get_iat_rva :: "json \<Rightarrow> outcome" where
  "get_iat_rva json_data =
     (case search_and_get json_data ''datadirectories'' of
        Inl e \<Rightarrow> Inl e
      | Inr (False, _) \<Rightarrow> Inr (False, JNull)
      | Inr (True, datadirectories) \<Rightarrow>
          (case py_len datadirectories of
             Inl e \<Rightarrow> Inl e
           | Inr n \<Rightarrow>
               if n = 0 then Inr (True, JFloat (Fin 0))
               else (case py_getitem2 datadirectories 12 ''virtual_address'' of
                       Inl e \<Rightarrow> Inl e
                     | Inr iat_rva \<Rightarrow> Inr (True, iat_rva))))"

definition get_export_size :: "json \<Rightarrow> outcome" where
  "get_export_size json_data =
     (case search_and_get json_data ''datadirectories'' of
        Inl e \<Rightarrow> Inl e
      | Inr (False, _) \<Rightarrow> Inr (False, JNull)
      | Inr (True, datadirectories) \<Rightarrow>
          (case py_len datadirectories of
             Inl e \<Rightarrow> Inl e
           | Inr n \<Rightarrow>
               if n = 0 then Inr (True, JFloat (Fin 0))
               else (case py_getitem2 datadirectories 0 ''size'' of
                       Inl e \<Rightarrow> Inl e
                     | Inr export_size \<Rightarrow> Inr (True, export_size))))"

definition get_export_rva :: "json \<Rightarrow> outcome" where
  "get_export_rva json_data =
     (case search_and_get json_data ''datadirectories'' of
        Inl e \<Rightarrow> Inl e
      | Inr (False, _) \<Rightarrow> Inr (False, JNull)
      | Inr (True, datadirectories) \<Rightarrow>
          (case py_len datadirectories of
             Inl e \<Rightarrow> Inl e
           | Inr n \<Rightarrow>
               if n = 0 then Inr (True, JFloat (Fin 0))
               else (case py_getitem2 datadirectories 0 ''size'' of
                       Inl e \<Rightarrow> Inl e
                     | Inr export_rva \<Rightarrow> Inr (True, export_rva))))"

definition get_resource_size :: "json \<Rightarrow> outcome" where
  "get_resource_size json_data =
     (case search_and_get json_data ''datadirectories'' of
        Inl e \<Rightarrow> Inl e
      | Inr (False, _) \<Rightarrow> Inr (False, JNull)
      | Inr (True, datadirectories) \<Rightarrow>
          (case py_len datadirectories of
             Inl e \<Rightarrow> Inl e
           | Inr n \<Rightarrow>
               if n = 0 then Inr (True, JFloat (Fin 0))
               else (case py_getitem2 datadirectories 2 ''size'' of
                       Inl e \<Rightarrow> Inl e
                     | Inr resource_size \<Rightarrow> Inr (True, resource_size))))"

section \<open>The aggregates over the sections\<close>

text \<open>
  Lines 253-539: nine methods, three for each of the sub-fields \<^verbatim>\<open>"entropy"\<close>,
  \<^verbatim>\<open>"size"\<close> and \<^verbatim>\<open>"vsize"\<close>. The three methods of a sub-field differ from those of
  another only in the name of the sub-field, so each shape is written once, with the
  name as an argument, and the nine methods are its instances.

  The loop over the sections looks the sub-field up in every section with the generic
  search. It leaves the method with \<^verbatim>\<open>(False, None)\<close> at the first section without the
  sub-field (the result \<open>None\<close> below), and an exception leaves it at once.
\<close>

fun sum_loop :: "(rat \<Rightarrow> pyfloat) \<Rightarrow> string \<Rightarrow> json list \<Rightarrow> json \<Rightarrow> exn + json option" where
  "sum_loop rnd feature [] acc = Inr (Some acc)"
| "sum_loop rnd feature (section # sections) acc =
     (case search_and_get section feature of
        Inl e \<Rightarrow> Inl e
      | Inr (False, _) \<Rightarrow> Inr None
      | Inr (True, v) \<Rightarrow>
          (case py_add rnd acc v of
             Inl e \<Rightarrow> Inl e
           | Inr acc' \<Rightarrow> sum_loop rnd feature sections acc'))"

fun min_loop :: "string \<Rightarrow> json list \<Rightarrow> json \<Rightarrow> exn + json option" where
  "min_loop feature [] acc = Inr (Some acc)"
| "min_loop feature (section # sections) acc =
     (case search_and_get section feature of
        Inl e \<Rightarrow> Inl e
      | Inr (False, _) \<Rightarrow> Inr None
      | Inr (True, v) \<Rightarrow>
          (case py_min acc v of
             Inl e \<Rightarrow> Inl e
           | Inr acc' \<Rightarrow> min_loop feature sections acc'))"

fun max_loop :: "string \<Rightarrow> json list \<Rightarrow> json \<Rightarrow> exn + json option" where
  "max_loop feature [] acc = Inr (Some acc)"
| "max_loop feature (section # sections) acc =
     (case search_and_get section feature of
        Inl e \<Rightarrow> Inl e
      | Inr (False, _) \<Rightarrow> Inr None
      | Inr (True, v) \<Rightarrow>
          (case py_max acc v of
             Inl e \<Rightarrow> Inl e
           | Inr acc' \<Rightarrow> max_loop feature sections acc'))"

text \<open>
  The mean starts from the integer \<^verbatim>\<open>0\<close> and divides the sum by \<^verbatim>\<open>len(sections)\<close>.
\<close>

definition sections_mean :: "(rat \<Rightarrow> pyfloat) \<Rightarrow> string \<Rightarrow> json \<Rightarrow> outcome" where
  "sections_mean rnd feature json_data =
     (case search_and_get json_data ''sections'' of
        Inl e \<Rightarrow> Inl e
      | Inr (False, _) \<Rightarrow> Inr (False, JNull)
      | Inr (True, sections) \<Rightarrow>
          (case py_len sections of
             Inl e \<Rightarrow> Inl e
           | Inr n \<Rightarrow>
               if n = 0 then Inr (True, JFloat (Fin 0))
               else (case py_iter sections of
                       Inl e \<Rightarrow> Inl e
                     | Inr secs \<Rightarrow>
                         (case sum_loop rnd feature secs (JInt 0) of
                            Inl e \<Rightarrow> Inl e
                          | Inr None \<Rightarrow> Inr (False, JNull)
                          | Inr (Some acc) \<Rightarrow>
                              (case py_truediv_len rnd acc n of
                                 Inl e \<Rightarrow> Inl e
                               | Inr mean \<Rightarrow> Inr (True, mean))))))"

text \<open>The minimum starts from \<^verbatim>\<open>float('inf')\<close>, the maximum from \<^verbatim>\<open>float('-inf')\<close>.\<close>

definition sections_min :: "string \<Rightarrow> json \<Rightarrow> outcome" where
  "sections_min feature json_data =
     (case search_and_get json_data ''sections'' of
        Inl e \<Rightarrow> Inl e
      | Inr (False, _) \<Rightarrow> Inr (False, JNull)
      | Inr (True, sections) \<Rightarrow>
          (case py_len sections of
             Inl e \<Rightarrow> Inl e
           | Inr n \<Rightarrow>
               if n = 0 then Inr (True, JFloat (Fin 0))
               else (case py_iter sections of
                       Inl e \<Rightarrow> Inl e
                     | Inr secs \<Rightarrow>
                         (case min_loop feature secs (JFloat PInf) of
                            Inl e \<Rightarrow> Inl e
                          | Inr None \<Rightarrow> Inr (False, JNull)
                          | Inr (Some acc) \<Rightarrow> Inr (True, acc)))))"

definition sections_max :: "string \<Rightarrow> json \<Rightarrow> outcome" where
  "sections_max feature json_data =
     (case search_and_get json_data ''sections'' of
        Inl e \<Rightarrow> Inl e
      | Inr (False, _) \<Rightarrow> Inr (False, JNull)
      | Inr (True, sections) \<Rightarrow>
          (case py_len sections of
             Inl e \<Rightarrow> Inl e
           | Inr n \<Rightarrow>
               if n = 0 then Inr (True, JFloat (Fin 0))
               else (case py_iter sections of
                       Inl e \<Rightarrow> Inl e
                     | Inr secs \<Rightarrow>
                         (case max_loop feature secs (JFloat NInf) of
                            Inl e \<Rightarrow> Inl e
                          | Inr None \<Rightarrow> Inr (False, JNull)
                          | Inr (Some acc) \<Rightarrow> Inr (True, acc)))))"

definition get_sections_mean_entropy :: "(rat \<Rightarrow> pyfloat) \<Rightarrow> json \<Rightarrow> outcome" where
  "get_sections_mean_entropy rnd json_data = sections_mean rnd ''entropy'' json_data"

definition get_sections_min_entropy :: "json \<Rightarrow> outcome" where
  "get_sections_min_entropy json_data = sections_min ''entropy'' json_data"

definition get_sections_max_entropy :: "json \<Rightarrow> outcome" where
  "get_sections_max_entropy json_data = sections_max ''entropy'' json_data"

definition get_sections_mean_raw_size :: "(rat \<Rightarrow> pyfloat) \<Rightarrow> json \<Rightarrow> outcome" where
  "get_sections_mean_raw_size rnd json_data = sections_mean rnd ''size'' json_data"

definition get_sections_min_raw_size :: "json \<Rightarrow> outcome" where
  "get_sections_min_raw_size json_data = sections_min ''size'' json_data"

definition get_sections_max_raw_size :: "json \<Rightarrow> outcome" where
  "get_sections_max_raw_size json_data = sections_max ''size'' json_data"

definition get_sections_mean_virtual_size :: "(rat \<Rightarrow> pyfloat) \<Rightarrow> json \<Rightarrow> outcome" where
  "get_sections_mean_virtual_size rnd json_data = sections_mean rnd ''vsize'' json_data"

definition get_sections_min_virtual_size :: "json \<Rightarrow> outcome" where
  "get_sections_min_virtual_size json_data = sections_min ''vsize'' json_data"

definition get_sections_max_virtual_size :: "json \<Rightarrow> outcome" where
  "get_sections_max_virtual_size json_data = sections_max ''vsize'' json_data"

section \<open>The converter\<close>

subsection \<open>Construction\<close>

text \<open>
  \<^verbatim>\<open>__init__\<close> (lines 18-24): \<^verbatim>\<open>list.remove\<close> deletes the first occurrence of the
  target, and the target is appended whether or not it was there. The object holds
  nothing but the resulting list, \<^verbatim>\<open>self._features\<close>, which is what \<open>init\<close> returns.
\<close>

definition target :: string where
  "target = ''label''"

definition init :: "string list \<Rightarrow> string list" where
  "init features =
     (if target \<in> set features then remove1 target features else features) @ [target]"

subsection \<open>One feature, one record\<close>

text \<open>The chain of comparisons of lines 70-101.\<close>

definition dispatch :: "(rat \<Rightarrow> pyfloat) \<Rightarrow> string \<Rightarrow> json \<Rightarrow> outcome" where
  "dispatch rnd feature json_data =
     (if feature = ''sections_mean_entropy'' then get_sections_mean_entropy rnd json_data
      else if feature = ''sections_min_entropy'' then get_sections_min_entropy json_data
      else if feature = ''sections_max_entropy'' then get_sections_max_entropy json_data
      else if feature = ''sections_mean_rawsize'' then get_sections_mean_raw_size rnd json_data
      else if feature = ''sections_min_rawsize'' then get_sections_min_raw_size json_data
      else if feature = ''sections_max_rawsize'' then get_sections_max_raw_size json_data
      else if feature = ''sections_mean_virtualsize''
        then get_sections_mean_virtual_size rnd json_data
      else if feature = ''sections_min_virtualsize'' then get_sections_min_virtual_size json_data
      else if feature = ''sections_max_virtualsize'' then get_sections_max_virtual_size json_data
      else if feature = ''debug_size'' then get_debug_size json_data
      else if feature = ''debug_rva'' then get_debug_rva json_data
      else if feature = ''iat_rva'' then get_iat_rva json_data
      else if feature = ''export_size'' then get_export_size json_data
      else if feature = ''export_rva'' then get_export_rva json_data
      else if feature = ''resource_size'' then get_resource_size json_data
      else search_and_get json_data feature)"

text \<open>
  The two ways a record is given up (lines 103-111). Both print a message, delete the
  output and make \<^verbatim>\<open>convert\<close> return \<^verbatim>\<open>False\<close>; the message is what tells them apart.
\<close>

datatype failure =
    NotExtracted string  \<comment> \<open>\<^verbatim>\<open>Feature '...' could not be extracted.\<close>\<close>
  | ComplexObject string  \<comment> \<open>\<^verbatim>\<open>Feature '...' is a complex object.\<close>\<close>

fun is_complex :: "json \<Rightarrow> bool" where
  "is_complex (JDict d) = True"
| "is_complex (JList xs) = True"
| "is_complex _ = False"

text \<open>
  The loop over \<^verbatim>\<open>self._features\<close> (lines 67-113), filling the dictionary \<^verbatim>\<open>data\<close>.
\<close>

fun project ::
  "(rat \<Rightarrow> pyfloat) \<Rightarrow> string list \<Rightarrow> json \<Rightarrow> (string \<rightharpoonup> json) \<Rightarrow>
     exn + (failure + (string \<rightharpoonup> json))"
where
  "project rnd [] json_data data = Inr (Inr data)"
| "project rnd (feature # features) json_data data =
     (case dispatch rnd feature json_data of
        Inl e \<Rightarrow> Inl e
      | Inr (status, v) \<Rightarrow>
          if \<not> status then Inr (Inl (NotExtracted feature))
          else if is_complex v then Inr (Inl (ComplexObject feature))
          else project rnd features json_data (data(feature \<mapsto> v)))"

text \<open>
  \<^verbatim>\<open>writer.writerow(data)\<close> (line 115): \<^verbatim>\<open>csv.DictWriter\<close> writes, for every field name
  in order, the value stored under it, and the empty string for a name that is missing.
\<close>

definition row_of :: "string list \<Rightarrow> (string \<rightharpoonup> json) \<Rightarrow> json list" where
  "row_of fieldnames data =
     map (\<lambda>k. case data k of Some v \<Rightarrow> v | None \<Rightarrow> JStr []) fieldnames"

subsection \<open>The lines of the source file\<close>

text \<open>
  The handler of \<^verbatim>\<open>json.JSONDecodeError\<close> (lines 60-63) starts with
  \<^verbatim>\<open>print(e.msg())\<close>. The attribute \<^verbatim>\<open>msg\<close> of that exception is a string, and calling a
  string raises \<^verbatim>\<open>TypeError\<close>.
\<close>

definition call_msg :: "exn + unit" where
  "call_msg = Inl TypeError"

text \<open>
  How the loop over the lines ends: every line became a row; or a \<^verbatim>\<open>return False\<close> after
  \<^verbatim>\<open>os.remove(csv_file_path)\<close>; or an exception, with the rows written before it.
\<close>

datatype ending =
    Finished "json list list"
  | Aborted "failure option"
  | Crashed exn "json list list"

text \<open>
  The loop of lines 56-115. A line is given by what \<^verbatim>\<open>json.loads\<close> makes of it: \<open>Some\<close>
  value, or \<open>None\<close> when it raises \<^verbatim>\<open>JSONDecodeError\<close>. \<open>rows\<close> are the rows written so
  far.
\<close>

fun convert_lines ::
  "(rat \<Rightarrow> pyfloat) \<Rightarrow> string list \<Rightarrow> json option list \<Rightarrow> json list list \<Rightarrow> ending"
where
  "convert_lines rnd features [] rows = Finished rows"
| "convert_lines rnd features (None # lines) rows =
     (case call_msg of
        Inl e \<Rightarrow> Crashed e rows
      | Inr _ \<Rightarrow> Aborted None)"
| "convert_lines rnd features (Some json_data # lines) rows =
     (case project rnd features json_data Map.empty of
        Inl e \<Rightarrow> Crashed e rows
      | Inr (Inl failure) \<Rightarrow> Aborted (Some failure)
      | Inr (Inr data) \<Rightarrow> convert_lines rnd features lines (rows @ [row_of features data]))"

subsection \<open>Files\<close>

text \<open>
  What the converter needs from its surroundings. The contents of a file are of a type
  \<open>'f\<close> that is left open.
  \<^item> \<open>splitext_root p\<close> is \<^verbatim>\<open>os.path.splitext(p)[0]\<close>.
  \<^item> \<open>json_lines c\<close> are the lines of a file with contents \<open>c\<close>, each as \<^verbatim>\<open>json.loads\<close>
    decodes it.
  \<^item> \<open>csv_file header rows\<close> are the contents of a file to which a \<^verbatim>\<open>csv.DictWriter\<close>
    wrote that header and those rows.
  \<^item> \<open>round_float\<close> is the rounding of the float arithmetic.

  A file system maps the paths that exist to their contents. Failures of the operating
  system (a path that cannot be opened or written) and what the program prints are not
  modelled.
\<close>

record 'f env =
  splitext_root :: "string \<Rightarrow> string"
  json_lines :: "'f \<Rightarrow> json option list"
  csv_file :: "string list \<Rightarrow> json list list \<Rightarrow> 'f"
  round_float :: "rat \<Rightarrow> pyfloat"

datatype result = Return bool | Raise exn

text \<open>\<^verbatim>\<open>check_file_path\<close> (lines 124-137).\<close>

definition check_file_path :: "(string \<rightharpoonup> 'f) \<Rightarrow> string \<Rightarrow> bool" where
  "check_file_path fs file_path = (if fs file_path = None then False else True)"

text \<open>
  \<^verbatim>\<open>convert\<close> (lines 26-122), for the converter whose \<^verbatim>\<open>self._features\<close> is \<open>features\<close>.
  It returns the result of the call and the file system it leaves. The output is opened
  for writing before the source is read, and it is closed, with the header and the rows
  written so far, however the method is left; \<^verbatim>\<open>os.remove\<close> takes its path away.
\<close>

definition convert ::
  "'f env \<Rightarrow> string list \<Rightarrow> (string \<rightharpoonup> 'f) \<Rightarrow> string \<Rightarrow> result \<times> (string \<rightharpoonup> 'f)"
where
  "convert env features fs file_path =
     (if \<not> check_file_path fs file_path then (Return False, fs)
      else
        let csv_file_path = splitext_root env file_path @ ''.csv'' in
        if fs csv_file_path \<noteq> None then (Return False, fs)
        else
          (case fs file_path of
             None \<Rightarrow> (Return False, fs)
           | Some contents \<Rightarrow>
               (case convert_lines (round_float env) features (json_lines env contents) [] of
                  Finished rows \<Rightarrow>
                    (Return True, fs(csv_file_path \<mapsto> csv_file env features rows))
                | Aborted _ \<Rightarrow> (Return False, fs(csv_file_path := None))
                | Crashed e rows \<Rightarrow>
                    (Raise e, fs(csv_file_path \<mapsto> csv_file env features rows)))))"

section \<open>Reference notions\<close>

text \<open>
  The definitions of this section are not taken from the program: they say what the
  properties below compare the program with.
\<close>

subsection \<open>The pre-order traversal of a record\<close>

text \<open>
  All the entries \<open>(key, value)\<close> of a record tree in depth-first pre-order: inside a
  dictionary an entry comes before what lies below its value; below a dictionary value lie
  its own entries, below a list value the entries of its dictionary elements, in order,
  and below any other value nothing.
\<close>

fun preorder_items :: "(string \<times> json) list \<Rightarrow> (string \<times> json) list" and
    preorder_elems :: "json list \<Rightarrow> (string \<times> json) list"
where
  "preorder_items [] = []"
| "preorder_items ((key, v) # rest) =
     (key, v) #
     (case v of JDict d \<Rightarrow> preorder_items d | JList xs \<Rightarrow> preorder_elems xs | _ \<Rightarrow> [])
     @ preorder_items rest"
| "preorder_elems [] = []"
| "preorder_elems (item # items) =
     (case item of JDict d \<Rightarrow> preorder_items d | _ \<Rightarrow> []) @ preorder_elems items"

text \<open>The value of the first entry with the given key, as a search outcome.\<close>

definition first_match :: "string \<Rightarrow> (string \<times> json) list \<Rightarrow> bool \<times> json" where
  "first_match feature entries =
     (case List.find (\<lambda>(k, v). k = feature) entries of
        None \<Rightarrow> (False, JNull)
      | Some (k, v) \<Rightarrow> (True, v))"

subsection \<open>Numbers, their mean, minimum and maximum\<close>








subsection \<open>Surroundings for the examples\<close>

text \<open>
  The examples run the converter on files that are either JSON lines, given by what each
  line decodes to, or a table with its header and rows. The root of a path is what stands
  before its first dot (the paths of the examples have one dot), no example reads a table
  back as a source, and the arithmetic is exact.
\<close>

datatype sample_file =
    Jsonl "json option list"
  | Csv "string list" "json list list"

definition sample_env :: "sample_file env" where
  "sample_env =
     \<lparr> splitext_root = takeWhile (\<lambda>c. c \<noteq> CHR ''.''),
       json_lines = (\<lambda>c. case c of Jsonl ls \<Rightarrow> ls | Csv header rows \<Rightarrow> []),
       csv_file = Csv,
       round_float = Fin \<rparr>"


text \<open>
  A record with the thirteen data directories of a file, in the order of the producer;
  entry \<open>i\<close> has the size \<open>100 + i\<close> and the virtual address \<open>200 + i\<close>.
\<close>

definition sample_directories :: "json list" where
  "sample_directories =
     [JDict [(''name'', JStr ''EXPORT_TABLE''), (''size'', JInt 100), (''virtual_address'', JInt 200)],
      JDict [(''name'', JStr ''IMPORT_TABLE''), (''size'', JInt 101), (''virtual_address'', JInt 201)],
      JDict [(''name'', JStr ''RESOURCE_TABLE''), (''size'', JInt 102), (''virtual_address'', JInt 202)],
      JDict [(''name'', JStr ''EXCEPTION_TABLE''), (''size'', JInt 103), (''virtual_address'', JInt 203)],
      JDict [(''name'', JStr ''CERTIFICATE_TABLE''), (''size'', JInt 104), (''virtual_address'', JInt 204)],
      JDict [(''name'', JStr ''BASE_RELOCATION_TABLE''), (''size'', JInt 105), (''virtual_address'', JInt 205)],
      JDict [(''name'', JStr ''DEBUG''), (''size'', JInt 106), (''virtual_address'', JInt 206)],
      JDict [(''name'', JStr ''ARCHITECTURE''), (''size'', JInt 107), (''virtual_address'', JInt 207)],
      JDict [(''name'', JStr ''GLOBAL_PTR''), (''size'', JInt 108), (''virtual_address'', JInt 208)],
      JDict [(''name'', JStr ''TLS_TABLE''), (''size'', JInt 109), (''virtual_address'', JInt 209)],
      JDict [(''name'', JStr ''LOAD_CONFIG_TABLE''), (''size'', JInt 110), (''virtual_address'', JInt 210)],
      JDict [(''name'', JStr ''BOUND_IMPORT''), (''size'', JInt 111), (''virtual_address'', JInt 211)],
      JDict [(''name'', JStr ''IAT''), (''size'', JInt 112), (''virtual_address'', JInt 212)]]"

definition sample_record :: json where
  "sample_record = JDict [(''datadirectories'', JList sample_directories), (''label'', JInt 1)]"

section \<open>Properties\<close>

subsection \<open>The generic search\<close>

lemma first_match_Nil: "first_match f [] = (False, JNull)"
  by (simp add: first_match_def)

lemma first_match_Cons:
  "first_match f ((k, v) # es) = (if k = f then (True, v) else first_match f es)"
  by (simp add: first_match_def)

lemma first_match_append:
  "first_match f (xs @ ys) =
     (case first_match f xs of (True, v) \<Rightarrow> (True, v) | (False, _) \<Rightarrow> first_match f ys)"
  by (induction xs) (auto simp: first_match_def split: option.splits)

lemma search_is_first_match:
  "search_items d f = first_match f (preorder_items d)"
  "search_elems xs f = first_match f (preorder_elems xs)"
  by (induction d f and xs f rule: search_items_search_elems.induct)
     (auto simp: first_match_Nil first_match_Cons first_match_append
           split: prod.splits bool.splits)

lemma first_match_found:
  "f \<in> fst ` set es \<Longrightarrow> \<exists>v. first_match f es = (True, v)"
  by (induction es) (fastforce simp: first_match_Cons image_iff)+

lemma first_match_not_found:
  "f \<notin> fst ` set es \<Longrightarrow> first_match f es = (False, JNull)"
  by (induction es) (fastforce simp: first_match_Nil first_match_Cons image_iff)+

lemma first_match_False_iff:
  "(first_match f es = (False, JNull)) = (f \<notin> fst ` set es)"
proof (cases "f \<in> fst ` set es")
  case True
  then obtain v where "first_match f es = (True, v)"
    using first_match_found by blast
  with True show ?thesis by simp
next
  case False
  then show ?thesis by (simp add: first_match_not_found)
qed

lemma first_match_split:
  "f \<notin> fst ` set pre \<Longrightarrow> first_match f (pre @ (f, v) # post) = (True, v)"
  by (induction pre) (auto simp: first_match_Cons)

text \<open>
  C5. On a record (a dictionary) the generic search returns the value of the first entry,
  in the depth-first pre-order of the tree, whose key is the feature name. It answers
  \<open>(False, None)\<close> exactly when no entry of the whole tree has that key; and when the key
  occurs more than once, the occurrence that the traversal meets first is the one
  returned, whatever its depth.
\<close>

theorem search_and_get_first_in_preorder:
  "search_and_get (JDict d) feature = Inr (first_match feature (preorder_items d))
   \<and> ((search_and_get (JDict d) feature = Inr (False, JNull))
        = (feature \<notin> fst ` set (preorder_items d)))
   \<and> (preorder_items d = pre @ (feature, v) # post \<and> feature \<notin> fst ` set pre
         \<longrightarrow> search_and_get (JDict d) feature = Inr (True, v))"
  by (simp add: search_is_first_match first_match_False_iff first_match_split)

theorem search_and_get_first_in_preorder_witness:
  "preorder_items [(''a'', JDict [(''y'', JNull), (''x'', JInt 1)]), (''x'', JInt 2)]
     = [(''a'', JDict [(''y'', JNull), (''x'', JInt 1)]), (''y'', JNull)]
       @ (''x'', JInt 1) # [(''x'', JInt 2)]
   \<and> ''x'' \<notin> fst ` set [(''a'', JDict [(''y'', JNull), (''x'', JInt 1)]), (''y'', JNull)]
   \<and> search_and_get (JDict [(''a'', JDict [(''y'', JNull), (''x'', JInt 1)]), (''x'', JInt 2)])
         ''x''
       = Inr (True, JInt 1)"
  using search_and_get_first_in_preorder
    [of "[(''a'', JDict [(''y'', JNull), (''x'', JInt 1)]), (''x'', JInt 2)]" "''x''"
        "[(''a'', JDict [(''y'', JNull), (''x'', JInt 1)]), (''y'', JNull)]" "JInt 1"
        "[(''x'', JInt 2)]"]
  by (simp add: first_match_def)

subsection \<open>The data-directory extractors\<close>

text \<open>
  C10. The extractors of \<^verbatim>\<open>export_rva\<close> and of \<^verbatim>\<open>export_size\<close> have the same outcome on
  every record, an exception included; where the data directories are a list that starts
  with a dictionary holding \<^verbatim>\<open>"size"\<close>, both return that field of entry 0.
\<close>

theorem export_rva_same_as_export_size:
  "get_export_rva json_data = get_export_size json_data
   \<and> (search_and_get json_data ''datadirectories'' = Inr (True, JList (JDict entry # entries))
        \<and> map_of entry ''size'' = Some v
       \<longrightarrow> get_export_rva json_data = Inr (True, v)
           \<and> get_export_size json_data = Inr (True, v))"
  by (simp add: get_export_rva_def get_export_size_def py_getitem2_def)

theorem export_rva_same_as_export_size_witness:
  "search_and_get
       (JDict [(''datadirectories'',
                JList [JDict [(''size'', JInt 10), (''virtual_address'', JInt 1)]])])
       ''datadirectories''
     = Inr (True, JList (JDict [(''size'', JInt 10), (''virtual_address'', JInt 1)] # []))
   \<and> map_of [(''size'', JInt 10), (''virtual_address'', JInt 1)] ''size'' = Some (JInt 10)
   \<and> get_export_rva
       (JDict [(''datadirectories'',
                JList [JDict [(''size'', JInt 10), (''virtual_address'', JInt 1)]])])
       = Inr (True, JInt 10)
   \<and> get_export_size
       (JDict [(''datadirectories'',
                JList [JDict [(''size'', JInt 10), (''virtual_address'', JInt 1)]])])
       = Inr (True, JInt 10)"
  using export_rva_same_as_export_size
    [of "JDict [(''datadirectories'',
                 JList [JDict [(''size'', JInt 10), (''virtual_address'', JInt 1)]])]"
        "[(''size'', JInt 10), (''virtual_address'', JInt 1)]" "[]" "JInt 10"]
  by simp

lemma datadirectory_field:
  assumes "search_and_get j ''datadirectories'' = Inr (True, JList dd)"
    and "i < length dd" and "dd ! i = JDict entry" and "map_of entry k = Some v"
  shows "(case py_len (JList dd) of Inl e \<Rightarrow> Inl e
          | Inr n \<Rightarrow> if n = 0 then Inr (True, JFloat (Fin 0))
                     else (case py_getitem2 (JList dd) i k of Inl e \<Rightarrow> Inl e
                           | Inr x \<Rightarrow> Inr (True, x))) = Inr (True, v)"
  using assms by (auto simp: py_getitem2_def)

text \<open>
  X1. What the six extractors read when the data directories are a list of at least thirteen
  entries and the entries at the indices 0, 2, 6 and 12 are dictionaries with the fields
  read there: \<^verbatim>\<open>export_size\<close> returns the size of entry 0, \<^verbatim>\<open>resource_size\<close> the size of
  entry 2, \<^verbatim>\<open>debug_rva\<close> the virtual address of entry 6 and \<^verbatim>\<open>iat_rva\<close> the virtual address
  of entry 12. The method bound to \<^verbatim>\<open>_get_debug_size\<close> returns the virtual address of entry
  6 as well; the size of entry 6 is what the shadowed first definition returns.
\<close>

theorem datadirectory_fields:
  assumes "search_and_get json_data ''datadirectories'' = Inr (True, JList dd)"
    and "13 \<le> length dd"
    and "dd ! 0 = JDict e0" and "dd ! 2 = JDict e2" and "dd ! 6 = JDict e6"
    and "dd ! 12 = JDict e12"
    and "map_of e0 ''size'' = Some s0" and "map_of e2 ''size'' = Some s2"
    and "map_of e6 ''size'' = Some s6" and "map_of e6 ''virtual_address'' = Some a6"
    and "map_of e12 ''virtual_address'' = Some a12"
  shows "get_export_size json_data = Inr (True, s0)
    \<and> get_resource_size json_data = Inr (True, s2)
    \<and> get_debug_rva json_data = Inr (True, a6)
    \<and> get_iat_rva json_data = Inr (True, a12)
    \<and> get_debug_size json_data = Inr (True, a6)
    \<and> get_debug_size_shadowed json_data = Inr (True, s6)"
proof -
  have len: "0 < length dd" "2 < length dd" "6 < length dd" "12 < length dd"
    using assms(2) by auto
  have "get_export_size json_data = Inr (True, s0)"
    unfolding get_export_size_def
    using datadirectory_field [OF assms(1) len(1) assms(3) assms(7)] assms(1) by simp
  moreover have "get_resource_size json_data = Inr (True, s2)"
    unfolding get_resource_size_def
    using datadirectory_field [OF assms(1) len(2) assms(4) assms(8)] assms(1) by simp
  moreover have "get_debug_rva json_data = Inr (True, a6)"
    unfolding get_debug_rva_def
    using datadirectory_field [OF assms(1) len(3) assms(5) assms(10)] assms(1) by simp
  moreover have "get_iat_rva json_data = Inr (True, a12)"
    unfolding get_iat_rva_def
    using datadirectory_field [OF assms(1) len(4) assms(6) assms(11)] assms(1) by simp
  moreover have "get_debug_size json_data = Inr (True, a6)"
    unfolding get_debug_size_def
    using datadirectory_field [OF assms(1) len(3) assms(5) assms(10)] assms(1) by simp
  moreover have "get_debug_size_shadowed json_data = Inr (True, s6)"
    unfolding get_debug_size_shadowed_def
    using datadirectory_field [OF assms(1) len(3) assms(5) assms(9)] assms(1) by simp
  ultimately show ?thesis by simp
qed

theorem datadirectory_fields_witness:
  "search_and_get sample_record ''datadirectories'' = Inr (True, JList sample_directories)
   \<and> 13 \<le> length sample_directories
   \<and> get_export_size sample_record = Inr (True, JInt 100)
   \<and> get_resource_size sample_record = Inr (True, JInt 102)
   \<and> get_debug_rva sample_record = Inr (True, JInt 206)
   \<and> get_iat_rva sample_record = Inr (True, JInt 212)"
proof -
  have h1: "search_and_get sample_record ''datadirectories''
              = Inr (True, JList sample_directories)"
    by (simp add: sample_record_def)
  have h2: "13 \<le> length sample_directories"
    by (simp add: sample_directories_def)
  have e0: "sample_directories ! 0
              = JDict [(''name'', JStr ''EXPORT_TABLE''), (''size'', JInt 100),
                       (''virtual_address'', JInt 200)]"
    by (simp add: sample_directories_def)
  have e2: "sample_directories ! 2
              = JDict [(''name'', JStr ''RESOURCE_TABLE''), (''size'', JInt 102),
                       (''virtual_address'', JInt 202)]"
    by (simp add: sample_directories_def)
  have e6: "sample_directories ! 6
              = JDict [(''name'', JStr ''DEBUG''), (''size'', JInt 106),
                       (''virtual_address'', JInt 206)]"
    by (simp add: sample_directories_def)
  have e12: "sample_directories ! 12
              = JDict [(''name'', JStr ''IAT''), (''size'', JInt 112),
                       (''virtual_address'', JInt 212)]"
    by (simp add: sample_directories_def)
  have "get_export_size sample_record = Inr (True, JInt 100)
    \<and> get_resource_size sample_record = Inr (True, JInt 102)
    \<and> get_debug_rva sample_record = Inr (True, JInt 206)
    \<and> get_iat_rva sample_record = Inr (True, JInt 212)
    \<and> get_debug_size sample_record = Inr (True, JInt 206)
    \<and> get_debug_size_shadowed sample_record = Inr (True, JInt 106)"
    by (rule datadirectory_fields [OF h1 h2 e0 e2 e6 e12]) simp_all
  with h1 h2 show ?thesis by blast
qed

text \<open>
  C1. The claim holds for \<^verbatim>\<open>export_size\<close>, \<^verbatim>\<open>resource_size\<close>, \<^verbatim>\<open>debug_rva\<close> and \<^verbatim>\<open>iat_rva\<close>
  (shown above), and fails for \<^verbatim>\<open>debug_size\<close>: on the sample record, whose
  entry 6 has the size 106 and the virtual address 206, the extractor that \<^verbatim>\<open>convert\<close>
  calls for \<^verbatim>\<open>debug_size\<close> returns 206, the virtual address, where the specification
  expects the size 106. The first definition of \<^verbatim>\<open>_get_debug_size\<close>, which the second one replaces,
  returns 106.
\<close>

theorem debug_size_reads_virtual_address:
  "search_and_get sample_record ''datadirectories'' = Inr (True, JList sample_directories)
   \<and> length sample_directories = 13
   \<and> py_getitem2 (JList sample_directories) 6 ''size'' = Inr (JInt 106)
   \<and> py_getitem2 (JList sample_directories) 6 ''virtual_address'' = Inr (JInt 206)
   \<and> get_debug_size sample_record = Inr (True, JInt 206)
   \<and> dispatch rnd ''debug_size'' sample_record = Inr (True, JInt 206)
   \<and> get_debug_size_shadowed sample_record = Inr (True, JInt 106)"
  by (simp add: sample_record_def sample_directories_def dispatch_def get_debug_size_def
        get_debug_size_shadowed_def py_getitem2_def)

subsection \<open>The aggregates over the sections\<close>

text \<open>
  C7. When \<^verbatim>\<open>"sections"\<close> resolves to an empty list, each of the nine aggregate
  extractors succeeds with the float \<^verbatim>\<open>0.0\<close>.
\<close>

theorem sections_empty_aggregates_zero:
  assumes "search_and_get json_data ''sections'' = Inr (True, JList [])"
  shows "get_sections_mean_entropy rnd json_data = Inr (True, JFloat (Fin 0))
    \<and> get_sections_min_entropy json_data = Inr (True, JFloat (Fin 0))
    \<and> get_sections_max_entropy json_data = Inr (True, JFloat (Fin 0))
    \<and> get_sections_mean_raw_size rnd json_data = Inr (True, JFloat (Fin 0))
    \<and> get_sections_min_raw_size json_data = Inr (True, JFloat (Fin 0))
    \<and> get_sections_max_raw_size json_data = Inr (True, JFloat (Fin 0))
    \<and> get_sections_mean_virtual_size rnd json_data = Inr (True, JFloat (Fin 0))
    \<and> get_sections_min_virtual_size json_data = Inr (True, JFloat (Fin 0))
    \<and> get_sections_max_virtual_size json_data = Inr (True, JFloat (Fin 0))"
  using assms
  by (simp add: get_sections_mean_entropy_def get_sections_min_entropy_def
      get_sections_max_entropy_def get_sections_mean_raw_size_def get_sections_min_raw_size_def
      get_sections_max_raw_size_def get_sections_mean_virtual_size_def
      get_sections_min_virtual_size_def get_sections_max_virtual_size_def
      sections_mean_def sections_min_def sections_max_def)

theorem sections_empty_aggregates_zero_witness:
  "search_and_get (JDict [(''sha256'', JStr ''ab''), (''sections'', JList [])]) ''sections''
     = Inr (True, JList [])
   \<and> get_sections_mean_entropy Fin (JDict [(''sha256'', JStr ''ab''), (''sections'', JList [])])
       = Inr (True, JFloat (Fin 0))
   \<and> get_sections_min_raw_size (JDict [(''sha256'', JStr ''ab''), (''sections'', JList [])])
       = Inr (True, JFloat (Fin 0))
   \<and> get_sections_max_virtual_size (JDict [(''sha256'', JStr ''ab''), (''sections'', JList [])])
       = Inr (True, JFloat (Fin 0))"
proof -
  have h: "search_and_get (JDict [(''sha256'', JStr ''ab''), (''sections'', JList [])])
             ''sections'' = Inr (True, JList [])"
    by simp
  from h sections_empty_aggregates_zero [OF h, of Fin] show ?thesis by blast
qed






























subsection \<open>Construction\<close>

text \<open>
  C3, as amended. When \<^verbatim>\<open>"label"\<close> is in the supplied list, the schema of the converter
  is that list without its first \<^verbatim>\<open>"label"\<close>, followed by \<^verbatim>\<open>"label"\<close>: its last entry is
  \<^verbatim>\<open>"label"\<close>, the other names keep their order, and \<^verbatim>\<open>"label"\<close> occurs as often as in the
  supplied list; so exactly once when it was supplied once.
\<close>

theorem init_label_last:
  assumes "''label'' \<in> set features"
  shows "init features = remove1 ''label'' features @ [''label'']
    \<and> last (init features) = ''label''
    \<and> count_list (init features) ''label'' = count_list features ''label''
    \<and> (count_list features ''label'' = 1 \<longrightarrow> count_list (init features) ''label'' = 1)
    \<and> filter (\<lambda>f. f \<noteq> ''label'') (init features) = filter (\<lambda>f. f \<noteq> ''label'') features"
proof -
  have "count_list (remove1 x xs) x = count_list xs x - 1" for x :: string and xs
    by (induction xs) auto
  moreover have "0 < count_list features ''label''"
    using assms by (metis count_list_0_iff gr0I)
  moreover have "filter (\<lambda>f. f \<noteq> x) (remove1 x xs) = filter (\<lambda>f. f \<noteq> x) xs"
    for x :: string and xs
    by (induction xs) auto
  ultimately show ?thesis
    using assms by (simp add: init_def target_def)
qed

theorem init_label_last_witness:
  "''label'' \<in> set [''md5'', ''label'', ''machine'']
   \<and> init [''md5'', ''label'', ''machine''] = [''md5'', ''machine'', ''label'']
   \<and> last (init [''md5'', ''label'', ''machine'']) = ''label''
   \<and> count_list (init [''md5'', ''label'', ''machine'']) ''label'' = 1"
  using init_label_last [of "[''md5'', ''label'', ''machine'']"] by simp

text \<open>
  C3 as stated fails for a list that names \<^verbatim>\<open>"label"\<close> twice: only the first occurrence
  is removed, and the schema holds \<^verbatim>\<open>"label"\<close> twice.
\<close>

theorem init_duplicate_label_counterexample:
  "''label'' \<in> set [''label'', ''md5'', ''label'']
   \<and> init [''label'', ''md5'', ''label''] = [''md5'', ''label'', ''label'']
   \<and> count_list (init [''label'', ''md5'', ''label'']) ''label'' = 2"
  by (simp add: init_def target_def)

subsection \<open>The projection of a record\<close>

lemma project_complex_no_row:
  assumes "feature \<in> set features" "dispatch rnd feature j = Inr (True, v)" "is_complex v"
  shows "project rnd features j data \<noteq> Inr (Inr data')"
  using assms(1)
proof (induction features arbitrary: data)
  case Nil
  then show ?case by simp
next
  case (Cons g features)
  show ?case
  proof (cases "g = feature")
    case True
    with assms(2,3) show ?thesis by simp
  next
    case False
    with Cons.prems have "feature \<in> set features" by simp
    then show ?thesis
      using Cons.IH by (auto split: sum.splits)
  qed
qed

lemma project_first_complex:
  assumes "\<forall>g\<in>set pre. \<exists>w. dispatch rnd g j = Inr (True, w) \<and> \<not> is_complex w"
    and "dispatch rnd feature j = Inr (True, v)" "is_complex v"
  shows "project rnd (pre @ feature # post) j data = Inr (Inl (ComplexObject feature))"
  using assms(1)
proof (induction pre arbitrary: data)
  case Nil
  with assms(2,3) show ?case by simp
next
  case (Cons g pre)
  then obtain w where "dispatch rnd g j = Inr (True, w)" "\<not> is_complex w" by auto
  with Cons show ?case by simp
qed

lemma convert_lines_complex_never_finishes:
  assumes "feature \<in> set features" "dispatch rnd feature j = Inr (True, v)" "is_complex v"
    and "Some j \<in> set lines"
  shows "convert_lines rnd features lines rows \<noteq> Finished rows'"
  using assms(4)
proof (induction lines arbitrary: rows)
  case Nil
  then show ?case by simp
next
  case (Cons l lines)
  show ?case
  proof (cases l)
    case None
    then show ?thesis by (simp add: call_msg_def)
  next
    case (Some j')
    show ?thesis
    proof (cases "j' = j")
      case True
      with Some project_complex_no_row [OF assms(1-3)] show ?thesis
        by (auto split: sum.splits)
    next
      case False
      with Some Cons.prems have "Some j \<in> set lines" by simp
      with Some Cons.IH show ?thesis by (auto split: sum.splits)
    qed
  qed
qed

lemma convert_True_finished:
  assumes "fst (convert env features fs file_path) = Return True"
    and "fs file_path = Some contents"
  shows "\<exists>rows. convert_lines (round_float env) features (json_lines env contents) []
                  = Finished rows"
proof (cases "convert_lines (round_float env) features (json_lines env contents) []")
  case (Finished rows)
  then show ?thesis by blast
next
  case (Aborted failure)
  have "fst (convert env features fs file_path) \<noteq> Return True"
    unfolding convert_def check_file_path_def Let_def
    by (simp add: assms(2) Aborted)
  with assms(1) show ?thesis by simp
next
  case (Crashed e rows)
  have "fst (convert env features fs file_path) \<noteq> Return True"
    unfolding convert_def check_file_path_def Let_def
    by (simp add: assms(2) Crashed)
  with assms(1) show ?thesis by simp
qed

text \<open>
  C8, as amended. Let a feature of the schema resolve, on a record, to a dictionary or a
  list. Then the projection of the record yields no row: the loop over the features ends
  in a failure or an exception, the loop over the lines stops at this record without
  writing a row for it, the loop over lines that hold the record never runs to its end,
  and \<^verbatim>\<open>convert\<close> does not return \<^verbatim>\<open>True\<close> for a source that holds the record. The
  failure is the one of a complex object, for this feature, when every feature before it
  in the schema resolves to a scalar.
\<close>

theorem complex_feature_fails_record:
  assumes "feature \<in> set features"
    and "dispatch rnd feature json_data = Inr (True, v)"
    and "is_complex v"
  shows "project rnd features json_data data \<noteq> Inr (Inr data')
    \<and> ((\<exists>failure. convert_lines rnd features (Some json_data # lines) rows
                      = Aborted (Some failure))
        \<or> (\<exists>e. convert_lines rnd features (Some json_data # lines) rows = Crashed e rows))
    \<and> (Some json_data \<in> set all_lines \<longrightarrow>
          convert_lines rnd features all_lines rows \<noteq> Finished rows')
    \<and> (features = pre @ feature # post
          \<and> (\<forall>g\<in>set pre. \<exists>w. dispatch rnd g json_data = Inr (True, w) \<and> \<not> is_complex w)
        \<longrightarrow> project rnd features json_data data = Inr (Inl (ComplexObject feature))
            \<and> convert_lines rnd features (Some json_data # lines) rows
                = Aborted (Some (ComplexObject feature)))
    \<and> (fs file_path = Some contents \<and> Some json_data \<in> set (json_lines env contents)
          \<and> round_float env = rnd
        \<longrightarrow> fst (convert env features fs file_path) \<noteq> Return True)"
proof -
  have no_row: "project rnd features json_data d \<noteq> Inr (Inr d')" for d d'
    by (rule project_complex_no_row [OF assms])
  have stops: "(\<exists>failure. convert_lines rnd features (Some json_data # lines) rows
                      = Aborted (Some failure))
        \<or> (\<exists>e. convert_lines rnd features (Some json_data # lines) rows = Crashed e rows)"
    using no_row [of Map.empty]
    by (cases "project rnd features json_data Map.empty") (auto split: sum.splits)
  have never: "convert_lines rnd features all_lines rows \<noteq> Finished rows'"
    if "Some json_data \<in> set all_lines"
    by (rule convert_lines_complex_never_finishes [OF assms that])
  have kind: "project rnd features json_data d = Inr (Inl (ComplexObject feature))"
    if "features = pre @ feature # post"
      "\<forall>g\<in>set pre. \<exists>w. dispatch rnd g json_data = Inr (True, w) \<and> \<not> is_complex w" for d
    unfolding that(1) by (rule project_first_complex [OF that(2) assms(2,3)])
  have whole: "fst (convert env features fs file_path) \<noteq> Return True"
    if source: "fs file_path = Some contents"
      and holds: "Some json_data \<in> set (json_lines env contents)"
      and rounding: "round_float env = rnd"
  proof
    assume "fst (convert env features fs file_path) = Return True"
    then have "\<exists>rs. convert_lines (round_float env) features (json_lines env contents) []
                      = Finished rs"
      using source by (rule convert_True_finished)
    then show False
      using convert_lines_complex_never_finishes [OF assms holds] rounding by blast
  qed
  have last: "convert_lines rnd features (Some json_data # lines) rows
                = Aborted (Some (ComplexObject feature))"
    if "features = pre @ feature # post"
      "\<forall>g\<in>set pre. \<exists>w. dispatch rnd g json_data = Inr (True, w) \<and> \<not> is_complex w"
    using kind [OF that, of Map.empty] by simp
  show ?thesis
    using no_row [of data data'] stops never kind [of data] last whole
    by (intro conjI impI) (blast+)
qed

theorem complex_feature_fails_record_witness:
  "''sections'' \<in> set [''md5'', ''sections'', ''label'']
   \<and> dispatch Fin ''sections''
        (JDict [(''md5'', JStr ''ab''), (''sections'', JList [JDict [(''entropy'', JInt 1)]]),
                (''label'', JInt 0)])
     = Inr (True, JList [JDict [(''entropy'', JInt 1)]])
   \<and> is_complex (JList [JDict [(''entropy'', JInt 1)]])
   \<and> [''md5'', ''sections'', ''label''] = [''md5''] @ ''sections'' # [''label'']
   \<and> dispatch Fin ''md5''
        (JDict [(''md5'', JStr ''ab''), (''sections'', JList [JDict [(''entropy'', JInt 1)]]),
                (''label'', JInt 0)])
     = Inr (True, JStr ''ab'')
   \<and> \<not> is_complex (JStr ''ab'')
   \<and> project Fin [''md5'', ''sections'', ''label'']
        (JDict [(''md5'', JStr ''ab''), (''sections'', JList [JDict [(''entropy'', JInt 1)]]),
                (''label'', JInt 0)]) Map.empty
     = Inr (Inl (ComplexObject ''sections''))
   \<and> convert_lines Fin [''md5'', ''sections'', ''label'']
        [Some (JDict [(''md5'', JStr ''ab''), (''sections'', JList [JDict [(''entropy'', JInt 1)]]),
                (''label'', JInt 0)])] []
     = Aborted (Some (ComplexObject ''sections''))
   \<and> fst (convert sample_env [''md5'', ''sections'', ''label'']
             [''data.jsonl'' \<mapsto>
                Jsonl [Some (JDict [(''md5'', JStr ''ab''),
                                    (''sections'', JList [JDict [(''entropy'', JInt 1)]]),
                                    (''label'', JInt 0)])]]
             ''data.jsonl'')
     \<noteq> Return True"
proof -
  let ?rec = "JDict [(''md5'', JStr ''ab''), (''sections'', JList [JDict [(''entropy'', JInt 1)]]),
                (''label'', JInt 0)]"
  let ?fs = "[''data.jsonl'' \<mapsto> Jsonl [Some ?rec]]"
  have h1: "''sections'' \<in> set [''md5'', ''sections'', ''label'']" by simp
  have h2: "dispatch Fin ''sections'' ?rec = Inr (True, JList [JDict [(''entropy'', JInt 1)]])"
    by (simp add: dispatch_def)
  have h3: "is_complex (JList [JDict [(''entropy'', JInt 1)]])" by simp
  have h4: "[''md5'', ''sections'', ''label''] = [''md5''] @ ''sections'' # [''label'']" by simp
  have h5: "dispatch Fin ''md5'' ?rec = Inr (True, JStr ''ab'')"
    by (simp add: dispatch_def)
  have h6: "\<not> is_complex (JStr ''ab'')" by simp
  have h7: "\<forall>g\<in>set [''md5'']. \<exists>w. dispatch Fin g ?rec = Inr (True, w) \<and> \<not> is_complex w"
    using h5 h6 by simp
  have h8: "?fs ''data.jsonl'' = Some (Jsonl [Some ?rec])" by simp
  have h9: "Some ?rec \<in> set (json_lines sample_env (Jsonl [Some ?rec]))"
    by (simp add: sample_env_def)
  have h10: "round_float sample_env = Fin" by (simp add: sample_env_def)
  note all = complex_feature_fails_record
      [OF h1 h2 h3, where data = Map.empty and data' = Map.empty and lines = "[]"
        and rows = "[]" and all_lines = "[]" and rows' = "[]" and pre = "[''md5'']"
        and post = "[''label'']" and fs = ?fs and file_path = "''data.jsonl''"
        and contents = "Jsonl [Some ?rec]" and env = sample_env]
  have kind: "project Fin [''md5'', ''sections'', ''label''] ?rec Map.empty
                = Inr (Inl (ComplexObject ''sections''))
        \<and> convert_lines Fin [''md5'', ''sections'', ''label''] (Some ?rec # []) []
                = Aborted (Some (ComplexObject ''sections''))"
    using all h4 h7 by blast
  have whole: "fst (convert sample_env [''md5'', ''sections'', ''label''] ?fs ''data.jsonl'')
                 \<noteq> Return True"
    using all h8 h9 h10 by blast
  from h1 h2 h3 h4 h5 h6 kind whole show ?thesis by blast
qed

text \<open>
  C8 as stated fails when an earlier feature of the schema is not found: the record is
  given up for that feature, with the failure of a feature that could not be extracted,
  before the feature with the complex value is looked at.
\<close>

theorem earlier_feature_fails_first_counterexample:
  "''sections'' \<in> set (init [''nonexistent'', ''sections''])
   \<and> dispatch Fin ''sections'' (JDict [(''sections'', JList [JDict [(''entropy'', JInt 1)]])])
     = Inr (True, JList [JDict [(''entropy'', JInt 1)]])
   \<and> is_complex (JList [JDict [(''entropy'', JInt 1)]])
   \<and> project Fin (init [''nonexistent'', ''sections''])
        (JDict [(''sections'', JList [JDict [(''entropy'', JInt 1)]])]) Map.empty
     = Inr (Inl (NotExtracted ''nonexistent''))
   \<and> convert_lines Fin (init [''nonexistent'', ''sections''])
        [Some (JDict [(''sections'', JList [JDict [(''entropy'', JInt 1)]])])] []
     = Aborted (Some (NotExtracted ''nonexistent''))"
  by (simp add: init_def target_def dispatch_def)

lemma dispatch_label: "dispatch rnd ''label'' j = search_and_get j ''label''"
  by (simp add: dispatch_def)

lemma dispatch_sections_mean_entropy:
  "dispatch rnd ''sections_mean_entropy'' j = get_sections_mean_entropy rnd j"
  by (simp add: dispatch_def)

lemma init_sections_mean_entropy:
  "init [''sections_mean_entropy''] = [''sections_mean_entropy'', ''label'']"
  by (simp add: init_def target_def)

lemma mean_entropy_empty:
  "search_and_get j ''sections'' = Inr (True, JList []) \<Longrightarrow>
     get_sections_mean_entropy rnd j = Inr (True, JFloat (Fin 0))"
  by (simp add: get_sections_mean_entropy_def sections_mean_def)

lemma project_mean_entropy_label:
  assumes "search_and_get j ''sections'' = Inr (True, JList [])"
    and "search_and_get j ''label'' = Inr (True, v)" and "\<not> is_complex v"
  shows "project rnd [''sections_mean_entropy'', ''label''] j Map.empty
           = Inr (Inr [''sections_mean_entropy'' \<mapsto> JFloat (Fin 0), ''label'' \<mapsto> v])"
  using assms
  by (simp add: dispatch_label dispatch_sections_mean_entropy mean_entropy_empty)

lemma project_mean_entropy_no_label:
  assumes "search_and_get j ''sections'' = Inr (True, JList [])"
    and "search_and_get j ''label'' = Inr (False, w)"
  shows "project rnd [''sections_mean_entropy'', ''label''] j Map.empty
           = Inr (Inl (NotExtracted ''label''))"
  using assms
  by (simp add: dispatch_label dispatch_sections_mean_entropy mean_entropy_empty)

lemma row_mean_entropy_label:
  "row_of [''sections_mean_entropy'', ''label'']
     [''sections_mean_entropy'' \<mapsto> JFloat (Fin 0), ''label'' \<mapsto> v] = [JFloat (Fin 0), v]"
  by (simp add: row_of_def)

text \<open>
  C2, as amended. The converter built from \<^verbatim>\<open>["sections_mean_entropy"]\<close> has the schema
  \<^verbatim>\<open>["sections_mean_entropy", "label"]\<close>. For a record whose \<^verbatim>\<open>"sections"\<close> resolves to an
  empty list and whose \<^verbatim>\<open>"label"\<close> resolves to a scalar \<open>v\<close>, the record adds exactly the row
  \<^verbatim>\<open>[0.0, v]\<close>, and the conversion of a file with this one record succeeds and leaves a
  table with that header and that row. When \<^verbatim>\<open>"label"\<close> is not found in the record, the
  conversion stops with the failure of a feature that could not be extracted.
\<close>

theorem empty_sections_row_with_label:
  assumes "search_and_get json_data ''sections'' = Inr (True, JList [])"
  shows "init [''sections_mean_entropy''] = [''sections_mean_entropy'', ''label'']
    \<and> (search_and_get json_data ''label'' = Inr (True, v) \<and> \<not> is_complex v \<longrightarrow>
          convert_lines rnd (init [''sections_mean_entropy'']) (Some json_data # lines) rows
            = convert_lines rnd (init [''sections_mean_entropy'']) lines
                (rows @ [[JFloat (Fin 0), v]])
          \<and> (fs file_path = Some contents \<and> json_lines env contents = [Some json_data]
                \<and> fs (splitext_root env file_path @ ''.csv'') = None \<longrightarrow>
              convert env (init [''sections_mean_entropy'']) fs file_path
                = (Return True,
                   fs(splitext_root env file_path @ ''.csv'' \<mapsto>
                        csv_file env [''sections_mean_entropy'', ''label'']
                          [[JFloat (Fin 0), v]]))))
    \<and> (search_and_get json_data ''label'' = Inr (False, w) \<longrightarrow>
          convert_lines rnd (init [''sections_mean_entropy'']) (Some json_data # lines) rows
            = Aborted (Some (NotExtracted ''label'')))"
proof -
  have step: "convert_lines r [''sections_mean_entropy'', ''label''] (Some json_data # ls) rs
                = convert_lines r [''sections_mean_entropy'', ''label''] ls
                    (rs @ [[JFloat (Fin 0), v]])"
    if "search_and_get json_data ''label'' = Inr (True, v)" "\<not> is_complex v" for r ls rs
    using project_mean_entropy_label [OF assms that] row_mean_entropy_label [of v]
    by simp
  have whole: "convert env [''sections_mean_entropy'', ''label''] fs file_path
                = (Return True,
                   fs(splitext_root env file_path @ ''.csv'' \<mapsto>
                        csv_file env [''sections_mean_entropy'', ''label'']
                          [[JFloat (Fin 0), v]]))"
    if "search_and_get json_data ''label'' = Inr (True, v)" "\<not> is_complex v"
      "fs file_path = Some contents" "json_lines env contents = [Some json_data]"
      "fs (splitext_root env file_path @ ''.csv'') = None"
    using that(3-5) step [OF that(1,2), of "round_float env" "[]" "[]"]
    by (simp add: convert_def check_file_path_def Let_def)
  have fail: "convert_lines rnd [''sections_mean_entropy'', ''label''] (Some json_data # lines) rows
                = Aborted (Some (NotExtracted ''label''))"
    if "search_and_get json_data ''label'' = Inr (False, w)"
    using project_mean_entropy_no_label [OF assms that] by simp
  show ?thesis
    unfolding init_sections_mean_entropy using step whole fail by blast
qed

theorem empty_sections_row_with_label_witness:
  "search_and_get (JDict [(''sections'', JList []), (''label'', JInt 1)]) ''sections''
     = Inr (True, JList [])
   \<and> search_and_get (JDict [(''sections'', JList []), (''label'', JInt 1)]) ''label''
     = Inr (True, JInt 1)
   \<and> \<not> is_complex (JInt 1)
   \<and> [''data.jsonl'' \<mapsto> Jsonl [Some (JDict [(''sections'', JList []), (''label'', JInt 1)])]]
        ''data.jsonl''
     = Some (Jsonl [Some (JDict [(''sections'', JList []), (''label'', JInt 1)])])
   \<and> json_lines sample_env (Jsonl [Some (JDict [(''sections'', JList []), (''label'', JInt 1)])])
     = [Some (JDict [(''sections'', JList []), (''label'', JInt 1)])]
   \<and> [''data.jsonl'' \<mapsto> Jsonl [Some (JDict [(''sections'', JList []), (''label'', JInt 1)])]]
        (splitext_root sample_env ''data.jsonl'' @ ''.csv'') = None
   \<and> convert sample_env (init [''sections_mean_entropy''])
        [''data.jsonl'' \<mapsto> Jsonl [Some (JDict [(''sections'', JList []), (''label'', JInt 1)])]]
        ''data.jsonl''
     = (Return True,
        [''data.jsonl'' \<mapsto> Jsonl [Some (JDict [(''sections'', JList []), (''label'', JInt 1)])],
         ''data.csv'' \<mapsto> Csv [''sections_mean_entropy'', ''label''] [[JFloat (Fin 0), JInt 1]]])"
proof -
  let ?rec = "JDict [(''sections'', JList []), (''label'', JInt 1)]"
  let ?fs = "[''data.jsonl'' \<mapsto> Jsonl [Some ?rec]]"
  have h1: "search_and_get ?rec ''sections'' = Inr (True, JList [])" by simp
  have h2: "search_and_get ?rec ''label'' = Inr (True, JInt 1)" by simp
  have h3: "\<not> is_complex (JInt 1)" by simp
  have h4: "?fs ''data.jsonl'' = Some (Jsonl [Some ?rec])" by simp
  have h5: "json_lines sample_env (Jsonl [Some ?rec]) = [Some ?rec]"
    by (simp add: sample_env_def)
  have root: "splitext_root sample_env ''data.jsonl'' @ ''.csv'' = ''data.csv''"
    by (simp add: sample_env_def)
  have h6: "?fs (splitext_root sample_env ''data.jsonl'' @ ''.csv'') = None"
    unfolding root by simp
  have csv: "csv_file sample_env = Csv" by (simp add: sample_env_def)
  have "convert sample_env (init [''sections_mean_entropy'']) ?fs ''data.jsonl''
          = (Return True,
             ?fs(splitext_root sample_env ''data.jsonl'' @ ''.csv'' \<mapsto>
                   csv_file sample_env [''sections_mean_entropy'', ''label'']
                     [[JFloat (Fin 0), JInt 1]]))"
    using empty_sections_row_with_label
      [OF h1, of "JInt 1" Fin "[]" "[]" ?fs "''data.jsonl''" "Jsonl [Some ?rec]" sample_env]
      h2 h3 h4 h5 h6
    by blast
  then have "convert sample_env (init [''sections_mean_entropy'']) ?fs ''data.jsonl''
          = (Return True,
             ?fs(''data.csv'' \<mapsto> Csv [''sections_mean_entropy'', ''label'']
                                    [[JFloat (Fin 0), JInt 1]]))"
    unfolding root csv .
  with h1 h2 h3 h4 h5 h6 show ?thesis by blast
qed

text \<open>
  C2 as stated fails: for the record \<^verbatim>\<open>{"sections": []}\<close> the conversion returns \<^verbatim>\<open>False\<close>
  and leaves no output, because the appended feature \<^verbatim>\<open>"label"\<close> is not found.
\<close>

theorem empty_sections_without_label_counterexample:
  "search_and_get (JDict [(''sections'', JList [])]) ''sections'' = Inr (True, JList [])
   \<and> init [''sections_mean_entropy''] = [''sections_mean_entropy'', ''label'']
   \<and> convert_lines Fin (init [''sections_mean_entropy''])
        [Some (JDict [(''sections'', JList [])])] []
     = Aborted (Some (NotExtracted ''label''))
   \<and> convert sample_env (init [''sections_mean_entropy''])
        [''data.jsonl'' \<mapsto> Jsonl [Some (JDict [(''sections'', JList [])])]] ''data.jsonl''
     = (Return False, [''data.jsonl'' \<mapsto> Jsonl [Some (JDict [(''sections'', JList [])])]])"
proof -
  have i: "init [''sections_mean_entropy''] = [''sections_mean_entropy'', ''label'']"
    by (simp add: init_def target_def)
  have l: "convert_lines Fin [''sections_mean_entropy'', ''label'']
             [Some (JDict [(''sections'', JList [])])] []
           = Aborted (Some (NotExtracted ''label''))"
    by (simp add: dispatch_def get_sections_mean_entropy_def sections_mean_def)
  have c: "convert sample_env [''sections_mean_entropy'', ''label'']
        [''data.jsonl'' \<mapsto> Jsonl [Some (JDict [(''sections'', JList [])])]] ''data.jsonl''
     = (Return False, [''data.jsonl'' \<mapsto> Jsonl [Some (JDict [(''sections'', JList [])])]])"
    by (simp add: convert_def check_file_path_def sample_env_def Let_def dispatch_def
          get_sections_mean_entropy_def sections_mean_def)
  show ?thesis unfolding i using l c by simp
qed

subsection \<open>The conversion of a file\<close>

text \<open>
  C9. When the path of the output, the root of the source path followed by \<^verbatim>\<open>.csv\<close>,
  exists, \<^verbatim>\<open>convert\<close> returns \<^verbatim>\<open>False\<close> and the file system is as it was.
\<close>

theorem convert_refuses_existing_output:
  assumes "fs (splitext_root env file_path @ ''.csv'') = Some existing"
  shows "convert env features fs file_path = (Return False, fs)"
  using assms by (simp add: convert_def Let_def check_file_path_def)

theorem convert_refuses_existing_output_witness:
  "[''data.jsonl'' \<mapsto> Jsonl [Some (JDict [(''label'', JInt 1)])],
    ''data.csv'' \<mapsto> Csv [''old''] [[JInt 7]]]
     (splitext_root sample_env ''data.jsonl'' @ ''.csv'') = Some (Csv [''old''] [[JInt 7]])
   \<and> convert sample_env [''label'']
        [''data.jsonl'' \<mapsto> Jsonl [Some (JDict [(''label'', JInt 1)])],
         ''data.csv'' \<mapsto> Csv [''old''] [[JInt 7]]]
        ''data.jsonl''
       = (Return False,
          [''data.jsonl'' \<mapsto> Jsonl [Some (JDict [(''label'', JInt 1)])],
           ''data.csv'' \<mapsto> Csv [''old''] [[JInt 7]]])"
proof -
  have h: "[''data.jsonl'' \<mapsto> Jsonl [Some (JDict [(''label'', JInt 1)])],
            ''data.csv'' \<mapsto> Csv [''old''] [[JInt 7]]]
             (splitext_root sample_env ''data.jsonl'' @ ''.csv'') = Some (Csv [''old''] [[JInt 7]])"
    by (simp add: sample_env_def)
  from h convert_refuses_existing_output
      [of "[''data.jsonl'' \<mapsto> Jsonl [Some (JDict [(''label'', JInt 1)])],
            ''data.csv'' \<mapsto> Csv [''old''] [[JInt 7]]]"
          sample_env "''data.jsonl''" "Csv [''old''] [[JInt 7]]" "[''label'']"]
  show ?thesis by blast
qed

text \<open>
  C4. A line that cannot be decoded does not end the conversion with \<^verbatim>\<open>False\<close> and a
  deleted output: the handler raises \<^verbatim>\<open>TypeError\<close> at \<^verbatim>\<open>e.msg()\<close>, before \<^verbatim>\<open>os.remove\<close>, so
  the call raises and the output stays, with the header and the rows written before that
  line. Here the source has one good record and then a malformed line.
\<close>

theorem malformed_line_leaves_partial_output:
  "convert_lines rnd features (None # lines) rows = Crashed TypeError rows
   \<and> convert sample_env (init [''md5''])
        [''data.jsonl'' \<mapsto> Jsonl [Some (JDict [(''md5'', JStr ''ab''), (''label'', JInt 1)]), None]]
        ''data.jsonl''
     = (Raise TypeError,
        [''data.jsonl'' \<mapsto> Jsonl [Some (JDict [(''md5'', JStr ''ab''), (''label'', JInt 1)]), None],
         ''data.csv'' \<mapsto> Csv [''md5'', ''label''] [[JStr ''ab'', JInt 1]]])"
  by (simp add: call_msg_def convert_def check_file_path_def sample_env_def Let_def init_def
        target_def dispatch_def row_of_def)

end
